theory Spec2Isabelle
  imports Complex_Main
begin

section \<open>JavaScript values used by the sources\<close>

text \<open>
  Instants are milliseconds since the epoch (\<open>Date.now()\<close>, the value of a \<open>Date\<close>).
  A schema path that may be \<open>undefined\<close> is an \<open>option\<close>. Strings are ASCII strings.
  Numbers are exact rationals. A double rounds, which does not move what is computed
  here: the percentage is a count out of ten times 100, which a double misses by far
  less than one half, and the code drawn stays between 100000 and 999999.
\<close>

type_synonym date = int

definition truthy :: "string option \<Rightarrow> bool" where
  \<comment> \<open>\<open>if (s)\<close> for a string path: false for \<open>undefined\<close> and for the empty string\<close>
  "truthy s = (case s of None \<Rightarrow> False | Some v \<Rightarrow> v \<noteq> [])"

definition Math_round :: "rat \<Rightarrow> int" where
  \<comment> \<open>\<open>Math.round\<close>: the nearest integer, a tie going up\<close>
  "Math_round x = \<lfloor>x + 1 / 2\<rfloor>"

definition Math_floor :: "rat \<Rightarrow> int" where
  "Math_floor x = \<lfloor>x\<rfloor>"

definition digit_char :: "nat \<Rightarrow> char" where
  "digit_char d = ''0123456789'' ! d"

function toString_nat :: "nat \<Rightarrow> string" where
  "toString_nat n =
     (if n < 10 then [digit_char n] else toString_nat (n div 10) @ [digit_char (n mod 10)])"
  by pat_completeness auto
termination
  by (relation "measure (\<lambda>n. n)") auto

declare toString_nat.simps [simp del]

definition toString :: "int \<Rightarrow> string" where
  \<comment> \<open>\<open>Number.prototype.toString\<close> on an integral number\<close>
  "toString i = (if i < 0 then CHR ''-'' # toString_nat (nat (- i)) else toString_nat (nat i))"

definition is_space :: "char \<Rightarrow> bool" where
  "is_space c = (c \<in> set [CHR '' '', CHR 0x09, CHR 0x0A, CHR 0x0B, CHR 0x0C, CHR 0x0D])"

definition trim :: "string \<Rightarrow> string" where
  "trim s = rev (dropWhile is_space (rev (dropWhile is_space s)))"



section \<open>The user schema (models/User.js)\<close>

text \<open>
  One record per sub-document and one for the document, a path of the schema being a
  field. \<open>_id\<close> is \<open>user_id\<close>. The two timestamps the object mapper maintains
  (\<open>createdAt\<close>, \<open>updatedAt\<close>) are left out: no function of the sources reads or
  writes them.
\<close>

record experience =
  employerName :: string
  role :: string
  period_from :: date
  period_to :: "date option"
  currentlyWorking :: bool
  description :: "string option"

record certification =
  cert_name :: string
  issuingOrganization :: "string option"
  issueDate :: "date option"
  expiryDate :: "date option"
  credentialId :: "string option"

record known_language =
  language :: string
  proficiency :: string

record location =
  loc_city :: string
  priority :: int

record salary =
  amount :: "rat option"
  period :: string

record skill =
  skill_name :: string
  level :: string

record notification_settings =
  allowNotifications :: bool
  emailNotifications :: bool
  smsNotifications :: bool
  jobAlerts :: bool
  marketingNotifications :: bool

record otp_challenge =
  code :: "string option"
  expiresAt :: "date option"
  attempts :: int

record user =
  user_id :: nat
  phoneNumber :: string
  isPhoneVerified :: bool
  email :: "string option"
  isEmailVerified :: bool
  fullName :: "string option"
  dateOfBirth :: "date option"
  gender :: "string option"
  city :: "string option"
  selectedLanguage :: string
  languagesKnown :: "known_language list"
  preferredLocations :: "location list"
  willingToRelocate :: bool
  workAvailability :: "string list"
  experienceLevel :: "string option"
  totalExperienceYears :: int
  experiences :: "experience list"
  lastDrawnSalary :: salary
  expectedSalary :: salary
  skills :: "skill list"
  certifications :: "certification list"
  jobCategories :: "string list"
  preferredShifts :: "string list"
  availableForJoining :: string
  accommodationRequired :: bool
  notificationSettings :: notification_settings
  profileCompleted :: bool
  profileCompletionPercentage :: int
  otp :: "otp_challenge option"
  isActive :: bool
  lastLogin :: "date option"


text \<open>
  \<open>new User({phoneNumber, fullName, city, experienceLevel})\<close>: the four given paths and
  the schema defaults for the others; \<open>oid\<close> is the identifier the constructor draws.
\<close>

definition new_User :: "nat \<Rightarrow> string \<Rightarrow> string \<Rightarrow> string \<Rightarrow> string \<Rightarrow> user" where
  "new_User oid phone name cty lvl =
     \<lparr>user_id = oid, phoneNumber = trim phone, isPhoneVerified = False, email = None,
      isEmailVerified = False, fullName = Some (trim name), dateOfBirth = None, gender = None,
      city = Some (trim cty), selectedLanguage = ''english'', languagesKnown = [],
      preferredLocations = [], willingToRelocate = False, workAvailability = [],
      experienceLevel = Some lvl, totalExperienceYears = 0, experiences = [],
      lastDrawnSalary = \<lparr>amount = None, period = ''monthly''\<rparr>,
      expectedSalary = \<lparr>amount = None, period = ''monthly''\<rparr>,
      skills = [], certifications = [], jobCategories = [], preferredShifts = [],
      availableForJoining = ''within-week'', accommodationRequired = False,
      notificationSettings =
        \<lparr>allowNotifications = True, emailNotifications = True, smsNotifications = True,
         jobAlerts = True, marketingNotifications = False\<rparr>,
      profileCompleted = False, profileCompletionPercentage = 0,
      otp = Some \<lparr>code = None, expiresAt = None, attempts = 0\<rparr>,
      isActive = True, lastLogin = None\<rparr>"

subsection \<open>calculateProfileCompletion and the pre-save hook\<close>

definition calculateProfileCompletion :: "user \<Rightarrow> user \<times> int" where
  "calculateProfileCompletion this =
     (let completed = (0::nat);
          total = (10::nat);
          completed = (if truthy (fullName this) then completed + 1 else completed);
          completed = (if truthy (email this) then completed + 1 else completed);
          completed = (if dateOfBirth this \<noteq> None then completed + 1 else completed);
          completed = (if truthy (gender this) then completed + 1 else completed);
          completed = (if truthy (city this) then completed + 1 else completed);
          completed = (if length (preferredLocations this) > 0 then completed + 1 else completed);
          completed = (if length (workAvailability this) > 0 then completed + 1 else completed);
          completed = (if truthy (experienceLevel this) then completed + 1 else completed);
          completed = (if length (skills this) > 0 then completed + 1 else completed);
          completed = (if length (jobCategories this) > 0 then completed + 1 else completed);
          percentage = Math_round ((of_nat completed / of_nat total) * 100)
      in (this\<lparr>profileCompletionPercentage := percentage,
                profileCompleted := (percentage \<ge> 80)\<rparr>, percentage))"

definition pre_save :: "bool \<Rightarrow> user \<Rightarrow> user" where
  \<comment> \<open>\<open>userSchema.pre('save')\<close>; the flag is \<open>this.isModified()\<close>\<close>
  "pre_save isModified this = (if isModified then fst (calculateProfileCompletion this) else this)"

subsection \<open>generateOTP and verifyOTP\<close>

text \<open>
  \<open>now\<close> is the clock reading and \<open>r\<close> the draw of \<open>Math.random()\<close>, a number with
  \<open>0 \<le> r < 1\<close>. The method returns the code and leaves the challenge on the document.
\<close>

definition generateOTP :: "date \<Rightarrow> rat \<Rightarrow> user \<Rightarrow> user \<times> string" where
  "generateOTP now r this =
     (let otp_code = toString (Math_floor (100000 + r * 900000))
      in (this\<lparr>otp := Some \<lparr>code = Some otp_code,
                              expiresAt = Some (now + 10 * 60 * 1000),
                              attempts = 0\<rparr>\<rparr>, otp_code))"

record otp_result =
  success :: bool
  message :: string

definition date_lt :: "date option \<Rightarrow> date \<Rightarrow> bool" where
  \<comment> \<open>\<open>d < new Date()\<close>; a comparison with \<open>undefined\<close> is false\<close>
  "date_lt d now = (case d of None \<Rightarrow> False | Some e \<Rightarrow> e < now)"

definition verifyOTP :: "date \<Rightarrow> string \<Rightarrow> user \<Rightarrow> user \<times> otp_result" where
  "verifyOTP now inputOTP this =
     (case otp this of
        None \<Rightarrow> (this, \<lparr>success = False, message = ''No OTP found''\<rparr>)
      | Some c \<Rightarrow>
          if \<not> truthy (code c) then (this, \<lparr>success = False, message = ''No OTP found''\<rparr>)
          else if date_lt (expiresAt c) now
            then (this, \<lparr>success = False, message = ''OTP has expired''\<rparr>)
          else if attempts c \<ge> 3
            then (this, \<lparr>success = False, message = ''Maximum OTP attempts exceeded''\<rparr>)
          else if code c \<noteq> Some inputOTP
            then (this\<lparr>otp := Some (c\<lparr>attempts := attempts c + 1\<rparr>)\<rparr>,
                  \<lparr>success = False, message = ''Invalid OTP''\<rparr>)
          else (this\<lparr>isPhoneVerified := True, otp := None\<rparr>,
                \<lparr>success = True, message = ''OTP verified successfully''\<rparr>))"


section \<open>The collection and the libraries\<close>

text \<open>
  The collection is the list of its documents. \<open>findOne\<close> answers with the first document
  that matches. \<open>save\<close> runs the pre-save hook and then writes: a document made by
  \<open>new User\<close> (no loaded original) is inserted, a loaded one replaces the stored document
  with its identifier. \<open>isModified()\<close> compares the document with the one that was loaded.
  What the object mapper and the database do besides (schema validators, index
  enforcement, a failing connection) is not part of the sources and is not modelled.
\<close>

type_synonym collection = "user list"

definition findOne_phoneNumber :: "collection \<Rightarrow> string \<Rightarrow> user option" where
  "findOne_phoneNumber store p = find (\<lambda>u. phoneNumber u = p) store"



definition isModified :: "user option \<Rightarrow> user \<Rightarrow> bool" where
  "isModified loaded this = (case loaded of None \<Rightarrow> True | Some original \<Rightarrow> this \<noteq> original)"

definition save :: "user option \<Rightarrow> user \<Rightarrow> collection \<Rightarrow> user \<times> collection" where
  "save loaded this store =
     (let doc = pre_save (isModified loaded this) this
      in (doc, case loaded of
                 None \<Rightarrow> store @ [doc]
               | Some _ \<Rightarrow> map (\<lambda>v. if user_id v = user_id doc then doc else v) store))"

text \<open>
  The library functions the routes call, and the process environment. The validators of
  express-validator and the token signer are parameters; \<open>twilioClient\<close> is
  \<open>messages.create\<close> of the configured client, answering with the message sid or
  failing.
\<close>

record sms_request =
  body :: string
  sms_from :: string
  sms_to :: string

record lib =
  isMobilePhone :: "string \<Rightarrow> bool"
  isEmail :: "string \<Rightarrow> bool"
  isISO8601 :: "string \<Rightarrow> bool"
  Date_parse :: "string \<Rightarrow> date"
  jwt_sign :: "nat \<Rightarrow> string \<Rightarrow> string"
  NODE_ENV :: "string option"
  TWILIO_PHONE_NUMBER :: string
  twilioClient :: "(sms_request \<Rightarrow> string + string) option"



record 'd response =
  res_status :: nat
  res_success :: bool
  res_message :: string
  res_data :: "'d option"

definition isLength :: "nat \<Rightarrow> nat option \<Rightarrow> string \<Rightarrow> bool" where
  "isLength lo hi s = (lo \<le> length s \<and> (case hi of None \<Rightarrow> True | Some h \<Rightarrow> length s \<le> h))"



section \<open>The authentication routes\<close>




record user_summary =
  sum_id :: nat
  sum_phoneNumber :: string
  sum_fullName :: "string option"
  sum_email :: "string option"
  sum_profileCompleted :: bool
  sum_profileCompletionPercentage :: int
  sum_isPhoneVerified :: bool

record login =
  token :: string
  login_user :: user_summary

text \<open>
  \<open>POST /api/auth/verify-otp\<close>. \<open>now\<close> is the clock read by \<open>verifyOTP\<close>, \<open>login_time\<close>
  the one read for \<open>lastLogin\<close>.
\<close>

definition verify_otp ::
  "lib \<Rightarrow> date \<Rightarrow> date \<Rightarrow> string \<Rightarrow> string \<Rightarrow> collection
     \<Rightarrow> collection \<times> login response" where
  "verify_otp l now login_time phone input store =
     (if \<not> (isMobilePhone l phone \<and> isLength 6 (Some 6) input)
      then (store, \<lparr>res_status = 400, res_success = False,
                    res_message = ''Validation failed'', res_data = None\<rparr>)
      else case findOne_phoneNumber store phone of
        None \<Rightarrow> (store, \<lparr>res_status = 404, res_success = False,
                         res_message = ''Phone number not found'', res_data = None\<rparr>)
      | Some user0 \<Rightarrow>
          let (user1, otpResult) = verifyOTP now input user0
          in if \<not> success otpResult
             then let (doc, store') = save (Some user0) user1 store
                  in (store', \<lparr>res_status = 400, res_success = False,
                               res_message = message otpResult, res_data = None\<rparr>)
             else let user2 = user1\<lparr>lastLogin := Some login_time\<rparr>;
                      (doc, store') = save (Some user0) user2 store
                  in (store', \<lparr>res_status = 200, res_success = True,
                               res_message = ''OTP verified successfully'',
                               res_data = Some
                                 \<lparr>token = jwt_sign l (user_id doc) (phoneNumber doc),
                                  login_user =
                                    \<lparr>sum_id = user_id doc, sum_phoneNumber = phoneNumber doc,
                                     sum_fullName = fullName doc, sum_email = email doc,
                                     sum_profileCompleted = profileCompleted doc,
                                     sum_profileCompletionPercentage =
                                       profileCompletionPercentage doc,
                                     sum_isPhoneVerified = isPhoneVerified doc\<rparr>\<rparr>\<rparr>))"



section \<open>The profile routes (routes/user.js)\<close>







section \<open>The completion score as the specification words it\<close>

definition predicates :: "user \<Rightarrow> bool list" where
  "predicates p =
     [truthy (fullName p), truthy (email p), dateOfBirth p \<noteq> None, truthy (gender p),
      truthy (city p), preferredLocations p \<noteq> [], workAvailability p \<noteq> [],
      truthy (experienceLevel p), skills p \<noteq> [], jobCategories p \<noteq> []]"

definition matched :: "user \<Rightarrow> nat" where
  "matched p = length (filter (\<lambda>b. b) (predicates p))"

definition round_half_up :: "rat \<Rightarrow> int" where
  "round_half_up x = (if x - of_int \<lfloor>x\<rfloor> < 1 / 2 then \<lfloor>x\<rfloor> else \<lfloor>x\<rfloor> + 1)"

definition score :: "user \<Rightarrow> int \<times> bool" where
  "score p =
     (let percentage = round_half_up (of_nat (matched p) / 10 * 100)
      in (percentage, percentage \<ge> 80))"


section \<open>The invariant of the stored location preferences\<close>




section \<open>Sample data for the concrete checks\<close>

definition sample_lib :: lib where
  \<comment> \<open>stand-ins for the validators; no Twilio client is configured, so every dispatch fails\<close>
  "sample_lib =
     \<lparr>isMobilePhone = (\<lambda>s. 8 \<le> length s \<and> set (tl s) \<subseteq> set ''0123456789''),
      isEmail = (\<lambda>s. CHR ''@'' \<in> set s),
      isISO8601 = (\<lambda>s. length s = 10),
      Date_parse = (\<lambda>s. 0),
      jwt_sign = (\<lambda>i p. ''token-for-'' @ p),
      NODE_ENV = Some ''production'',
      TWILIO_PHONE_NUMBER = ''+15005550006'',
      twilioClient = None\<rparr>"

definition sample_user :: user where
  \<comment> \<open>a stored profile keyed by its phone number, as a first request leaves it\<close>
  "sample_user = new_User 1 ''+10000000001'' [] [] ''fresher''"

definition other_user :: user where
  "other_user = (new_User 2 ''+10000000002'' ''Asha Rao'' ''Pune'' ''fresher'')
                  \<lparr>email := Some ''asha@example.com''\<rparr>"


definition basic_profile :: user where
  \<comment> \<open>full name, email and city, nothing else\<close>
  "basic_profile = other_user\<lparr>experienceLevel := None\<rparr>"

definition filled_profile :: user where
  \<comment> \<open>five more: a preferred location, an availability tag, the level, a skill, a category\<close>
  "filled_profile =
     other_user\<lparr>preferredLocations := [\<lparr>loc_city = ''Pune'', priority = 1\<rparr>],
                 workAvailability := [''full-time''],
                 skills := [\<lparr>skill_name = ''driving'', level = ''beginner''\<rparr>],
                 jobCategories := [''logistics'']\<rparr>"




definition sample_store :: collection where
  \<comment> \<open>the first profile holds the challenge issued at time 0 with code 550000\<close>
  "sample_store = [fst (generateOTP 0 (1 / 2) sample_user), other_user]"


section \<open>Decimal rendering and the branches of verifyOTP\<close>

lemmas eval_otp = generateOTP_def verifyOTP_def Math_floor_def toString_def toString_nat.simps
  digit_char_def truthy_def date_lt_def Let_def










lemma verifyOTP_exhausted:
  "otp u = Some c \<Longrightarrow> truthy (code c) \<Longrightarrow> \<not> date_lt (expiresAt c) now \<Longrightarrow> 3 \<le> attempts c \<Longrightarrow>
   verifyOTP now i u = (u, \<lparr>success = False, message = ''Maximum OTP attempts exceeded''\<rparr>)"
  by (simp add: verifyOTP_def)

lemma verifyOTP_invalid:
  "otp u = Some c \<Longrightarrow> truthy (code c) \<Longrightarrow> \<not> date_lt (expiresAt c) now \<Longrightarrow> attempts c < 3 \<Longrightarrow>
   code c \<noteq> Some i \<Longrightarrow>
   verifyOTP now i u = (u\<lparr>otp := Some (c\<lparr>attempts := attempts c + 1\<rparr>)\<rparr>,
                        \<lparr>success = False, message = ''Invalid OTP''\<rparr>)"
  by (simp add: verifyOTP_def)

lemma verifyOTP_valid:
  "otp u = Some c \<Longrightarrow> truthy (code c) \<Longrightarrow> \<not> date_lt (expiresAt c) now \<Longrightarrow> attempts c < 3 \<Longrightarrow>
   code c = Some i \<Longrightarrow>
   verifyOTP now i u = (u\<lparr>isPhoneVerified := True, otp := None\<rparr>,
                        \<lparr>success = True, message = ''OTP verified successfully''\<rparr>)"
  by (simp add: verifyOTP_def)


section \<open>Expiry, and what a verification writes\<close>






text \<open>
  C10. \<open>verifyOTP\<close> writes nothing but the challenge sub-record and the phone-verified
  flag. When it answers \<open>No OTP found\<close>, \<open>OTP has expired\<close> or
  \<open>Maximum OTP attempts exceeded\<close> the profile is returned as it was, attempt counter
  included. When it answers \<open>Invalid OTP\<close> the one change is that the attempt counter is
  one higher; the code, the expiry and the phone-verified flag are as before.
\<close>

theorem verifyOTP_frame:
  "(fst (verifyOTP now i u))\<lparr>otp := otp u, isPhoneVerified := isPhoneVerified u\<rparr> = u
   \<and> (message (snd (verifyOTP now i u))
         \<in> {''No OTP found'', ''OTP has expired'', ''Maximum OTP attempts exceeded''}
       \<longrightarrow> fst (verifyOTP now i u) = u)
   \<and> (message (snd (verifyOTP now i u)) = ''Invalid OTP''
       \<longrightarrow> (\<exists>c. otp u = Some c
               \<and> fst (verifyOTP now i u) = u\<lparr>otp := Some (c\<lparr>attempts := attempts c + 1\<rparr>)\<rparr>
               \<and> otp (fst (verifyOTP now i u))
                   = Some \<lparr>code = code c, expiresAt = expiresAt c, attempts = attempts c + 1\<rparr>
               \<and> isPhoneVerified (fst (verifyOTP now i u)) = isPhoneVerified u))"
  by (simp add: verifyOTP_def split: option.split)

theorem verifyOTP_frame_witness:
  "fst (verifyOTP 1000 ''550000'' sample_user) = sample_user
   \<and> fst (verifyOTP 600001 ''550000'' (fst (generateOTP 0 (1 / 2) sample_user)))
       = fst (generateOTP 0 (1 / 2) sample_user)
   \<and> otp (fst (verifyOTP 1000 ''123456'' (fst (generateOTP 0 (1 / 2) sample_user))))
       = Some \<lparr>code = Some ''550000'', expiresAt = Some 600000, attempts = 1\<rparr>
   \<and> (fst (verifyOTP 1000 ''123456'' (fst (generateOTP 0 (1 / 2) sample_user))))
         \<lparr>otp := otp (fst (generateOTP 0 (1 / 2) sample_user))\<rparr>
       = fst (generateOTP 0 (1 / 2) sample_user)"
proof -
  let ?issued = "fst (generateOTP 0 (1 / 2) sample_user)"
  have m1: "message (snd (verifyOTP 1000 ''550000'' sample_user)) = ''No OTP found''"
    by (simp add: verifyOTP_def sample_user_def new_User_def truthy_def)
  have m2: "message (snd (verifyOTP 600001 ''550000'' ?issued)) = ''OTP has expired''"
    by (simp add: eval_otp)
  have m3: "message (snd (verifyOTP 1000 ''123456'' ?issued)) = ''Invalid OTP''"
    by (simp add: eval_otp)
  have o: "otp ?issued = Some \<lparr>code = Some ''550000'', expiresAt = Some 600000, attempts = 0\<rparr>"
    by (simp add: eval_otp)
  note f1 = verifyOTP_frame [where now = 1000 and i = "''550000''" and u = sample_user]
  note f2 = verifyOTP_frame [where now = 600001 and i = "''550000''" and u = ?issued]
  note f3 = verifyOTP_frame [where now = 1000 and i = "''123456''" and u = ?issued]
  from f1 [THEN conjunct2, THEN conjunct1] m1
  have a: "fst (verifyOTP 1000 ''550000'' sample_user) = sample_user" by simp
  from f2 [THEN conjunct2, THEN conjunct1] m2
  have b: "fst (verifyOTP 600001 ''550000'' ?issued) = ?issued" by simp
  from f3 [THEN conjunct2, THEN conjunct2] m3 obtain c where c: "otp ?issued = Some c"
     "otp (fst (verifyOTP 1000 ''123456'' ?issued))
                   = Some \<lparr>code = code c, expiresAt = expiresAt c, attempts = attempts c + 1\<rparr>"
     "isPhoneVerified (fst (verifyOTP 1000 ''123456'' ?issued)) = isPhoneVerified ?issued"
    by blast
  from c(1) o have "c = \<lparr>code = Some ''550000'', expiresAt = Some 600000, attempts = 0\<rparr>" by simp
  with c(2) have c': "otp (fst (verifyOTP 1000 ''123456'' ?issued))
       = Some \<lparr>code = Some ''550000'', expiresAt = Some 600000, attempts = 1\<rparr>" by simp
  have "(fst (verifyOTP 1000 ''123456'' ?issued))\<lparr>otp := otp ?issued\<rparr>
     = (fst (verifyOTP 1000 ''123456'' ?issued))\<lparr>otp := otp ?issued, isPhoneVerified := isPhoneVerified (fst (verifyOTP 1000 ''123456'' ?issued))\<rparr>"
    by simp
  also have "\<dots> = ?issued" using f3 [THEN conjunct1] by (simp only: c(3))
  finally have d: "(fst (verifyOTP 1000 ''123456'' ?issued))\<lparr>otp := otp ?issued\<rparr> = ?issued" .
  from a b c' d show ?thesis by (simp only: simp_thms)
qed


section \<open>Issuing a challenge\<close>







section \<open>The collection under save, and a failed verification request\<close>

lemma find_replace:
  "find P store = Some u \<Longrightarrow> P d \<Longrightarrow> user_id d = user_id u \<Longrightarrow>
   find P (map (\<lambda>v. if user_id v = user_id d then d else v) store) = Some d"
  by (induction store) (auto split: if_splits)

lemma calculateProfileCompletion_fst:
  "fst (calculateProfileCompletion u)
     = u\<lparr>profileCompletionPercentage := snd (calculateProfileCompletion u),
         profileCompleted := (snd (calculateProfileCompletion u) \<ge> 80)\<rparr>"
  unfolding calculateProfileCompletion_def Let_def by (simp only: fst_conv snd_conv)

lemma pre_save_fields [simp]:
  "user_id (pre_save b u) = user_id u"
  "phoneNumber (pre_save b u) = phoneNumber u"
  "otp (pre_save b u) = otp u"
  "email (pre_save b u) = email u"
  "isPhoneVerified (pre_save b u) = isPhoneVerified u"
  "preferredLocations (pre_save b u) = preferredLocations u"
  "willingToRelocate (pre_save b u) = willingToRelocate u"
  by (simp_all add: pre_save_def calculateProfileCompletion_fst)

lemma save_loaded:
  "save (Some u0) u store =
     (pre_save (u \<noteq> u0) u,
      map (\<lambda>v. if user_id v = user_id u then pre_save (u \<noteq> u0) u else v) store)"
  by (simp add: save_def isModified_def Let_def)


lemma verifyOTP_keeps [simp]:
  "user_id (fst (verifyOTP now i u)) = user_id u"
  "phoneNumber (fst (verifyOTP now i u)) = phoneNumber u"
  by (simp_all add: verifyOTP_def split: option.split)

lemma verify_otp_failure:
  assumes "isMobilePhone l p" and "length i = 6"
    and found: "findOne_phoneNumber store p = Some u"
    and fails: "\<not> success (snd (verifyOTP now i u))"
  shows "snd (verify_otp l now lt p i store)
           = \<lparr>res_status = 400, res_success = False,
              res_message = message (snd (verifyOTP now i u)), res_data = None\<rparr>"
    and "\<exists>d. findOne_phoneNumber (fst (verify_otp l now lt p i store)) p = Some d
            \<and> otp d = otp (fst (verifyOTP now i u))"
proof -
  let ?u1 = "fst (verifyOTP now i u)"
  let ?d = "pre_save (?u1 \<noteq> u) ?u1"
  let ?store' = "map (\<lambda>v. if user_id v = user_id ?u1 then ?d else v) store"
  from assms have eq: "verify_otp l now lt p i store
      = (?store', \<lparr>res_status = 400, res_success = False,
              res_message = message (snd (verifyOTP now i u)), res_data = None\<rparr>)"
    by (simp add: verify_otp_def isLength_def save_loaded split_beta Let_def)
  then show "snd (verify_otp l now lt p i store)
           = \<lparr>res_status = 400, res_success = False,
              res_message = message (snd (verifyOTP now i u)), res_data = None\<rparr>" by simp
  from found have pu: "phoneNumber u = p"
    by (auto simp add: findOne_phoneNumber_def find_Some_iff)
  have "find (\<lambda>v. phoneNumber v = p) (map (\<lambda>v. if user_id v = user_id ?d then ?d else v) store) = Some ?d"
    using found pu by (intro find_replace [where u = u]) (simp_all add: findOne_phoneNumber_def)
  then have "findOne_phoneNumber ?store' p = Some ?d" by (simp add: findOne_phoneNumber_def)
  with eq show "\<exists>d. findOne_phoneNumber (fst (verify_otp l now lt p i store)) p = Some d
            \<and> otp d = otp (fst (verifyOTP now i u))" by simp
qed


lemma verify_otp_invalid_step:
  assumes "isMobilePhone l p" and "length w = 6"
    and found: "findOne_phoneNumber store p = Some u"
    and c: "otp u = Some c" "truthy (code c)" "\<not> date_lt (expiresAt c) now" "attempts c < 3"
      "code c \<noteq> Some w"
  shows "snd (verify_otp l now lt p w store)
           = \<lparr>res_status = 400, res_success = False, res_message = ''Invalid OTP'',
              res_data = None\<rparr>
       \<and> (\<exists>d. findOne_phoneNumber (fst (verify_otp l now lt p w store)) p = Some d
              \<and> otp d = Some (c\<lparr>attempts := attempts c + 1\<rparr>))"
proof -
  have v: "verifyOTP now w u = (u\<lparr>otp := Some (c\<lparr>attempts := attempts c + 1\<rparr>)\<rparr>,
                        \<lparr>success = False, message = ''Invalid OTP''\<rparr>)"
    using c by (rule verifyOTP_invalid)
  then have f: "\<not> success (snd (verifyOTP now w u))" by simp
  from verify_otp_failure [OF assms(1,2) found f, of lt] v show ?thesis by simp
qed

lemma verify_otp_exhausted_step:
  assumes "isMobilePhone l p" and "length i = 6"
    and found: "findOne_phoneNumber store p = Some u"
    and c: "otp u = Some c" "truthy (code c)" "\<not> date_lt (expiresAt c) now" "3 \<le> attempts c"
  shows "snd (verify_otp l now lt p i store)
           = \<lparr>res_status = 400, res_success = False,
              res_message = ''Maximum OTP attempts exceeded'', res_data = None\<rparr>
       \<and> (\<exists>d. findOne_phoneNumber (fst (verify_otp l now lt p i store)) p = Some d
              \<and> otp d = Some c)"
proof -
  have v: "verifyOTP now i u = (u, \<lparr>success = False, message = ''Maximum OTP attempts exceeded''\<rparr>)"
    using c by (rule verifyOTP_exhausted)
  then have f: "\<not> success (snd (verifyOTP now i u))" by simp
  from verify_otp_failure [OF assms(1,2) found f, of lt] v c(1) show ?thesis by simp
qed

lemma sample_issued:
  "fst (generateOTP 0 (1 / 2) sample_user)
     = sample_user\<lparr>otp := Some \<lparr>code = Some ''550000'', expiresAt = Some 600000,
                                attempts = 0\<rparr>\<rparr>"
  by (simp add: eval_otp)

lemma sample_phones:
  "phoneNumber sample_user = ''+10000000001''" "phoneNumber other_user = ''+10000000002''"
  "user_id sample_user = 1" "user_id other_user = 2"
  "isMobilePhone sample_lib ''+10000000001''" "isMobilePhone sample_lib ''+10000000002''"
  by (simp_all add: sample_user_def other_user_def new_User_def trim_def is_space_def
        sample_lib_def)


section \<open>The attempt cap\<close>

text \<open>
  C3. A profile holds a challenge with a non-empty code that is not expired and whose
  attempt counter has reached 3: \<open>verifyOTP\<close> answers
  \<open>Maximum OTP attempts exceeded\<close> (AttemptsExhausted) for every candidate code, the
  stored one included, and leaves the profile as it is. The verification route saves
  the document after a failed verification, so the counter survives the request: three
  requests with wrong codes against a fresh challenge, each before the expiry, are
  answered \<open>Invalid OTP\<close> and leave the stored counter at 3, and a fourth request is
  answered with status 400 and \<open>Maximum OTP attempts exceeded\<close> whatever code it brings.
\<close>

theorem attempts_exhausted:
  "(otp u = Some c \<and> truthy (code c) \<and> \<not> date_lt (expiresAt c) now \<and> 3 \<le> attempts c
      \<longrightarrow> verifyOTP now i u
            = (u, \<lparr>success = False, message = ''Maximum OTP attempts exceeded''\<rparr>))
   \<and> (isMobilePhone l p \<and> findOne_phoneNumber store p = Some u
        \<and> otp u = Some c \<and> code c = Some k \<and> k \<noteq> [] \<and> expiresAt c = Some e \<and> attempts c = 0
        \<and> length w1 = 6 \<and> w1 \<noteq> k \<and> length w2 = 6 \<and> w2 \<noteq> k \<and> length w3 = 6 \<and> w3 \<noteq> k
        \<and> length i = 6 \<and> t1 \<le> e \<and> t2 \<le> e \<and> t3 \<le> e \<and> t4 \<le> e
      \<longrightarrow> (let s1 = fst (verify_otp l t1 lt1 p w1 store);
               s2 = fst (verify_otp l t2 lt2 p w2 s1);
               s3 = fst (verify_otp l t3 lt3 p w3 s2)
           in res_message (snd (verify_otp l t1 lt1 p w1 store)) = ''Invalid OTP''
              \<and> res_message (snd (verify_otp l t2 lt2 p w2 s1)) = ''Invalid OTP''
              \<and> res_message (snd (verify_otp l t3 lt3 p w3 s2)) = ''Invalid OTP''
              \<and> (\<exists>d. findOne_phoneNumber s3 p = Some d \<and> otp d = Some (c\<lparr>attempts := 3\<rparr>))
              \<and> snd (verify_otp l t4 lt4 p i s3)
                  = \<lparr>res_status = 400, res_success = False,
                     res_message = ''Maximum OTP attempts exceeded'', res_data = None\<rparr>))"
proof (intro conjI impI)
  assume "otp u = Some c \<and> truthy (code c) \<and> \<not> date_lt (expiresAt c) now \<and> 3 \<le> attempts c"
  then show "verifyOTP now i u
            = (u, \<lparr>success = False, message = ''Maximum OTP attempts exceeded''\<rparr>)"
    by (intro verifyOTP_exhausted [where c = c]) simp_all
next
  assume h: "isMobilePhone l p \<and> findOne_phoneNumber store p = Some u
        \<and> otp u = Some c \<and> code c = Some k \<and> k \<noteq> [] \<and> expiresAt c = Some e \<and> attempts c = 0
        \<and> length w1 = 6 \<and> w1 \<noteq> k \<and> length w2 = 6 \<and> w2 \<noteq> k \<and> length w3 = 6 \<and> w3 \<noteq> k
        \<and> length i = 6 \<and> t1 \<le> e \<and> t2 \<le> e \<and> t3 \<le> e \<and> t4 \<le> e"
  then have ph: "isMobilePhone l p" and f0: "findOne_phoneNumber store p = Some u"
    and o0: "otp u = Some c" by simp_all
  let ?s1 = "fst (verify_otp l t1 lt1 p w1 store)"
  let ?s2 = "fst (verify_otp l t2 lt2 p w2 ?s1)"
  let ?s3 = "fst (verify_otp l t3 lt3 p w3 ?s2)"
  let ?c1 = "c\<lparr>attempts := 1\<rparr>" and ?c2 = "c\<lparr>attempts := 2\<rparr>" and ?c3 = "c\<lparr>attempts := 3\<rparr>"
  have step1: "snd (verify_otp l t1 lt1 p w1 store)
           = \<lparr>res_status = 400, res_success = False, res_message = ''Invalid OTP'',
              res_data = None\<rparr>
       \<and> (\<exists>d. findOne_phoneNumber ?s1 p = Some d \<and> otp d = Some (c\<lparr>attempts := attempts c + 1\<rparr>))"
    using h by (intro verify_otp_invalid_step [OF ph _ f0 o0]) (auto simp add: truthy_def date_lt_def)
  then obtain d1 where d1: "findOne_phoneNumber ?s1 p = Some d1" "otp d1 = Some ?c1"
    using h by auto
  have step2: "snd (verify_otp l t2 lt2 p w2 ?s1)
           = \<lparr>res_status = 400, res_success = False, res_message = ''Invalid OTP'',
              res_data = None\<rparr>
       \<and> (\<exists>d. findOne_phoneNumber ?s2 p = Some d \<and> otp d = Some (?c1\<lparr>attempts := attempts ?c1 + 1\<rparr>))"
    using h by (intro verify_otp_invalid_step [OF ph _ d1]) (auto simp add: truthy_def date_lt_def)
  then obtain d2 where d2: "findOne_phoneNumber ?s2 p = Some d2" "otp d2 = Some ?c2"
    by auto
  have step3: "snd (verify_otp l t3 lt3 p w3 ?s2)
           = \<lparr>res_status = 400, res_success = False, res_message = ''Invalid OTP'',
              res_data = None\<rparr>
       \<and> (\<exists>d. findOne_phoneNumber ?s3 p = Some d \<and> otp d = Some (?c2\<lparr>attempts := attempts ?c2 + 1\<rparr>))"
    using h by (intro verify_otp_invalid_step [OF ph _ d2]) (auto simp add: truthy_def date_lt_def)
  then obtain d3 where d3: "findOne_phoneNumber ?s3 p = Some d3" "otp d3 = Some ?c3"
    by auto
  have step4: "snd (verify_otp l t4 lt4 p i ?s3)
           = \<lparr>res_status = 400, res_success = False,
              res_message = ''Maximum OTP attempts exceeded'', res_data = None\<rparr>
       \<and> (\<exists>d. findOne_phoneNumber (fst (verify_otp l t4 lt4 p i ?s3)) p = Some d
              \<and> otp d = Some ?c3)"
    using h by (intro verify_otp_exhausted_step [OF ph _ d3]) (auto simp add: truthy_def date_lt_def)
  from step1 step2 step3 step4 d3
  show "let s1 = fst (verify_otp l t1 lt1 p w1 store);
               s2 = fst (verify_otp l t2 lt2 p w2 s1);
               s3 = fst (verify_otp l t3 lt3 p w3 s2)
           in res_message (snd (verify_otp l t1 lt1 p w1 store)) = ''Invalid OTP''
              \<and> res_message (snd (verify_otp l t2 lt2 p w2 s1)) = ''Invalid OTP''
              \<and> res_message (snd (verify_otp l t3 lt3 p w3 s2)) = ''Invalid OTP''
              \<and> (\<exists>d. findOne_phoneNumber s3 p = Some d \<and> otp d = Some (c\<lparr>attempts := 3\<rparr>))
              \<and> snd (verify_otp l t4 lt4 p i s3)
                  = \<lparr>res_status = 400, res_success = False,
                     res_message = ''Maximum OTP attempts exceeded'', res_data = None\<rparr>"
    by (simp add: Let_def)
qed


theorem attempts_exhausted_witness:
  "snd (verifyOTP 1000 ''550000''
          (sample_user\<lparr>otp := Some \<lparr>code = Some ''550000'', expiresAt = Some 600000,
                                     attempts = 3\<rparr>\<rparr>))
     = \<lparr>success = False, message = ''Maximum OTP attempts exceeded''\<rparr>
   \<and> snd (verify_otp sample_lib 4000 4000 ''+10000000001'' ''550000''
       (fst (verify_otp sample_lib 3000 3000 ''+10000000001'' ''333333''
         (fst (verify_otp sample_lib 2000 2000 ''+10000000001'' ''222222''
           (fst (verify_otp sample_lib 1000 1000 ''+10000000001'' ''111111'' sample_store)))))))
     = \<lparr>res_status = 400, res_success = False,
        res_message = ''Maximum OTP attempts exceeded'', res_data = None\<rparr>"
proof -
  let ?c = "\<lparr>code = Some ''550000'', expiresAt = Some 600000, attempts = 0::int\<rparr>"
  let ?u3 = "sample_user\<lparr>otp := Some (?c\<lparr>attempts := 3\<rparr>)\<rparr>"
  have "otp ?u3 = Some (?c\<lparr>attempts := 3\<rparr>) \<and> truthy (code (?c\<lparr>attempts := 3\<rparr>))
      \<and> \<not> date_lt (expiresAt (?c\<lparr>attempts := 3\<rparr>)) 1000 \<and> 3 \<le> attempts (?c\<lparr>attempts := 3\<rparr>)"
    by (simp add: truthy_def date_lt_def)
  with attempts_exhausted [where u = ?u3 and c = "?c\<lparr>attempts := 3\<rparr>" and now = 1000
      and i = "''550000''", THEN conjunct1]
  have "verifyOTP 1000 ''550000'' ?u3
            = (?u3, \<lparr>success = False, message = ''Maximum OTP attempts exceeded''\<rparr>)"
    by (rule mp)
  then have a: "snd (verifyOTP 1000 ''550000''
          (sample_user\<lparr>otp := Some \<lparr>code = Some ''550000'', expiresAt = Some 600000,
                                     attempts = 3\<rparr>\<rparr>))
     = \<lparr>success = False, message = ''Maximum OTP attempts exceeded''\<rparr>" by simp
  have found: "findOne_phoneNumber sample_store ''+10000000001''
      = Some (fst (generateOTP 0 (1 / 2) sample_user))"
    by (simp add: sample_store_def findOne_phoneNumber_def sample_issued sample_phones)
  have h: "isMobilePhone sample_lib ''+10000000001''
        \<and> findOne_phoneNumber sample_store ''+10000000001''
            = Some (fst (generateOTP 0 (1 / 2) sample_user))
        \<and> otp (fst (generateOTP 0 (1 / 2) sample_user)) = Some ?c \<and> code ?c = Some ''550000''
        \<and> ''550000'' \<noteq> [] \<and> expiresAt ?c = Some 600000 \<and> attempts ?c = 0
        \<and> length ''111111'' = 6 \<and> ''111111'' \<noteq> ''550000''
        \<and> length ''222222'' = 6 \<and> ''222222'' \<noteq> ''550000''
        \<and> length ''333333'' = 6 \<and> ''333333'' \<noteq> ''550000''
        \<and> length ''550000'' = 6 \<and> (1000::int) \<le> 600000 \<and> (2000::int) \<le> 600000
        \<and> (3000::int) \<le> 600000 \<and> (4000::int) \<le> 600000"
    by (simp add: found sample_phones sample_issued)
  from attempts_exhausted [where l = sample_lib and p = "''+10000000001''"
      and store = sample_store and u = "fst (generateOTP 0 (1 / 2) sample_user)" and c = ?c
      and k = "''550000''" and e = 600000 and ?w1.0 = "''111111''" and ?w2.0 = "''222222''"
      and ?w3.0 = "''333333''" and i = "''550000''" and ?t1.0 = 1000 and ?t2.0 = 2000
      and ?t3.0 = 3000 and ?t4.0 = 4000 and ?lt1.0 = 1000 and ?lt2.0 = 2000 and ?lt3.0 = 3000
      and ?lt4.0 = 4000, THEN conjunct2] h
  have "let s1 = fst (verify_otp sample_lib 1000 1000 ''+10000000001'' ''111111'' sample_store);
               s2 = fst (verify_otp sample_lib 2000 2000 ''+10000000001'' ''222222'' s1);
               s3 = fst (verify_otp sample_lib 3000 3000 ''+10000000001'' ''333333'' s2)
           in res_message (snd (verify_otp sample_lib 1000 1000 ''+10000000001'' ''111111'' sample_store)) = ''Invalid OTP''
              \<and> res_message (snd (verify_otp sample_lib 2000 2000 ''+10000000001'' ''222222'' s1)) = ''Invalid OTP''
              \<and> res_message (snd (verify_otp sample_lib 3000 3000 ''+10000000001'' ''333333'' s2)) = ''Invalid OTP''
              \<and> (\<exists>d. findOne_phoneNumber s3 ''+10000000001'' = Some d \<and> otp d = Some (?c\<lparr>attempts := 3\<rparr>))
              \<and> snd (verify_otp sample_lib 4000 4000 ''+10000000001'' ''550000'' s3)
                  = \<lparr>res_status = 400, res_success = False,
                     res_message = ''Maximum OTP attempts exceeded'', res_data = None\<rparr>"
    by (rule mp)
  then have b: "snd (verify_otp sample_lib 4000 4000 ''+10000000001'' ''550000''
       (fst (verify_otp sample_lib 3000 3000 ''+10000000001'' ''333333''
         (fst (verify_otp sample_lib 2000 2000 ''+10000000001'' ''222222''
           (fst (verify_otp sample_lib 1000 1000 ''+10000000001'' ''111111'' sample_store)))))))
     = \<lparr>res_status = 400, res_success = False,
        res_message = ''Maximum OTP attempts exceeded'', res_data = None\<rparr>"
    unfolding Let_def by (elim conjE)
  from a b show ?thesis by (rule conjI)
qed



section \<open>The completion score\<close>

lemma Math_round_tenths: "Math_round (of_nat n / of_nat 10 * 100) = 10 * int n"
proof -
  have "(of_nat n / of_nat 10 * 100 :: rat) = of_int (10 * int n)" by simp
  then have "Math_round (of_nat n / of_nat 10 * 100) = \<lfloor>(of_int (10 * int n) :: rat) + 1 / 2\<rfloor>"
    by (simp only: Math_round_def)
  also have "\<dots> = 10 * int n" by (rule floor_unique) simp_all
  finally show ?thesis .
qed

lemma round_half_up_eq: "round_half_up x = Math_round x"
proof (cases "x - of_int \<lfloor>x\<rfloor> < 1 / 2")
  case True
  have "\<lfloor>x + 1 / 2\<rfloor> = \<lfloor>x\<rfloor>"
  proof (rule floor_unique)
    have "of_int \<lfloor>x\<rfloor> \<le> x" by (rule of_int_floor_le)
    then show "of_int \<lfloor>x\<rfloor> \<le> x + 1 / 2" by linarith
    from True show "x + 1 / 2 < of_int \<lfloor>x\<rfloor> + 1" by simp
  qed
  with True show ?thesis by (simp add: round_half_up_def Math_round_def)
next
  case False
  have "\<lfloor>x + 1 / 2\<rfloor> = \<lfloor>x\<rfloor> + 1"
  proof (rule floor_unique)
    from False show "of_int (\<lfloor>x\<rfloor> + 1) \<le> x + 1 / 2" by simp
    have "x < of_int \<lfloor>x\<rfloor> + 1" by linarith
    then show "x + 1 / 2 < of_int (\<lfloor>x\<rfloor> + 1) + 1" by simp
  qed
  with False show ?thesis by (simp add: round_half_up_def Math_round_def)
qed

lemma count_step: "(if a then c + 1 else c) = c + (of_bool a :: nat)"
  by simp

lemma filter_step: "length (filter (\<lambda>b. b) (x # xs)) = of_bool x + length (filter (\<lambda>b. b) xs)"
  by simp

lemma completed_is_matched:
  "snd (calculateProfileCompletion u) = Math_round (of_nat (matched u) / of_nat 10 * 100)"
proof -
  have "snd (calculateProfileCompletion u)
      = Math_round (of_nat (0 + of_bool (truthy (fullName u)) + of_bool (truthy (email u))
          + of_bool (dateOfBirth u \<noteq> None) + of_bool (truthy (gender u))
          + of_bool (truthy (city u)) + of_bool (length (preferredLocations u) > 0)
          + of_bool (length (workAvailability u) > 0) + of_bool (truthy (experienceLevel u))
          + of_bool (length (skills u) > 0) + of_bool (length (jobCategories u) > 0))
        / of_nat 10 * 100)"
    unfolding calculateProfileCompletion_def Let_def by (simp only: snd_conv count_step)
  moreover have "matched u = of_bool (truthy (fullName u)) + (of_bool (truthy (email u))
          + (of_bool (dateOfBirth u \<noteq> None) + (of_bool (truthy (gender u))
          + (of_bool (truthy (city u)) + (of_bool (preferredLocations u \<noteq> [])
          + (of_bool (workAvailability u \<noteq> []) + (of_bool (truthy (experienceLevel u))
          + (of_bool (skills u \<noteq> []) + (of_bool (jobCategories u \<noteq> []) + 0)))))))))"
    unfolding matched_def predicates_def
    by (simp only: filter_step filter.simps(1) list.size(3))
  ultimately show ?thesis by simp
qed


lemma predicates_scored [simp]:
  "predicates (u\<lparr>profileCompletionPercentage := x, profileCompleted := y\<rparr>) = predicates u"
  by (simp add: predicates_def)

lemma score_eq: "score u = (10 * int (matched u), 8 \<le> matched u)"
proof -
  have "round_half_up (of_nat (matched u) / 10 * 100)
          = Math_round (of_nat (matched u) / of_nat 10 * 100)"
    by (simp only: round_half_up_eq of_nat_numeral)
  then have "round_half_up (of_nat (matched u) / 10 * 100) = 10 * int (matched u)"
    by (simp only: Math_round_tenths)
  then show ?thesis by (simp add: score_def Let_def)
qed

lemma calculateProfileCompletion_score:
  "calculateProfileCompletion u
     = (u\<lparr>profileCompletionPercentage := fst (score u), profileCompleted := snd (score u)\<rparr>,
        fst (score u))"
proof -
  have "snd (calculateProfileCompletion u) = 10 * int (matched u)"
    by (simp only: completed_is_matched Math_round_tenths)
  then have p: "snd (calculateProfileCompletion u) = fst (score u)"
    by (simp add: score_eq)
  have "fst (calculateProfileCompletion u)
          = u\<lparr>profileCompletionPercentage := fst (score u), profileCompleted := snd (score u)\<rparr>"
    by (simp add: calculateProfileCompletion_fst p score_eq)
  with p show ?thesis by (simp add: prod_eq_iff)
qed

lemma score_scored [simp]:
  "score (u\<lparr>profileCompletionPercentage := x, profileCompleted := y\<rparr>) = score u"
  by (simp add: score_def matched_def)


text \<open>
  C2. The scorer looks at ten fixed predicates of the profile snapshot (full name, email,
  birth date, gender, city present; at least one preferred location, work-availability
  tag, skill, job category; experience level present). \<open>calculateProfileCompletion\<close>
  stores the percentage \<open>round(matched / 10 \<times> 100)\<close>, rounded half up, and the flag
  \<open>percentage \<ge> 80\<close>, and returns the percentage. A profile that satisfies only full
  name, email and city scores 30 and is not completed; one that also satisfies preferred
  location, availability, experience level, skill and job category scores 80 and is
  completed. Every \<open>save\<close> of a modified document recomputes both fields from the
  document it writes.
\<close>

theorem completion_score:
  "length (predicates u) = 10
   \<and> calculateProfileCompletion u
       = (u\<lparr>profileCompletionPercentage := fst (score u), profileCompleted := snd (score u)\<rparr>,
          fst (score u))
   \<and> fst (score u) = round_half_up (of_nat (matched u) / 10 * 100)
   \<and> snd (score u) = (fst (score u) \<ge> 80)
   \<and> (predicates u = [True, True, False, False, True, False, False, False, False, False]
        \<longrightarrow> score u = (30, False))
   \<and> (predicates u = [True, True, False, False, True, True, True, True, True, True]
        \<longrightarrow> score u = (80, True))
   \<and> (isModified loaded u \<longrightarrow>
        fst (save loaded u store) = fst (calculateProfileCompletion u)
        \<and> profileCompletionPercentage (fst (save loaded u store))
            = fst (score (fst (save loaded u store)))
        \<and> profileCompleted (fst (save loaded u store))
            = snd (score (fst (save loaded u store)))
        \<and> (loaded = None \<or> (\<exists>v \<in> set store. user_id v = user_id u)
              \<longrightarrow> fst (save loaded u store) \<in> set (snd (save loaded u store))))"
proof (intro conjI impI)
  show "length (predicates u) = 10" by (simp add: predicates_def)
  show "calculateProfileCompletion u
       = (u\<lparr>profileCompletionPercentage := fst (score u), profileCompleted := snd (score u)\<rparr>,
          fst (score u))" by (rule calculateProfileCompletion_score)
  show "fst (score u) = round_half_up (of_nat (matched u) / 10 * 100)"
    by (simp add: score_def Let_def)
  show "snd (score u) = (fst (score u) \<ge> 80)" by (simp add: score_def Let_def)
next
  assume "predicates u = [True, True, False, False, True, False, False, False, False, False]"
  then have "matched u = 3" by (simp add: matched_def)
  then show "score u = (30, False)" by (simp add: score_eq)
next
  assume "predicates u = [True, True, False, False, True, True, True, True, True, True]"
  then have "matched u = 8" by (simp add: matched_def)
  then show "score u = (80, True)" by (simp add: score_eq)
next
  assume m: "isModified loaded u"
  then have d: "fst (save loaded u store) = fst (calculateProfileCompletion u)"
    by (simp add: save_def pre_save_def Let_def)
  then show "fst (save loaded u store) = fst (calculateProfileCompletion u)" .
  from d show "profileCompletionPercentage (fst (save loaded u store))
            = fst (score (fst (save loaded u store)))"
    by (simp add: calculateProfileCompletion_score)
  from d show "profileCompleted (fst (save loaded u store))
            = snd (score (fst (save loaded u store)))"
    by (simp add: calculateProfileCompletion_score)
  assume "loaded = None \<or> (\<exists>v \<in> set store. user_id v = user_id u)"
  then show "fst (save loaded u store) \<in> set (snd (save loaded u store))"
  proof
    assume "loaded = None"
    then show ?thesis by (simp add: save_def Let_def)
  next
    assume "\<exists>v \<in> set store. user_id v = user_id u"
    then obtain v where "v \<in> set store" "user_id v = user_id u" by blast
    then show ?thesis
      by (cases loaded) (auto simp add: save_def Let_def image_iff intro!: bexI [where x = v])
  qed
qed


theorem completion_score_witness:
  "score basic_profile = (30, False)
   \<and> score filled_profile = (80, True)
   \<and> profileCompletionPercentage (fst (save None filled_profile [])) = 80
   \<and> profileCompleted (fst (save None filled_profile []))
   \<and> fst (save None filled_profile []) \<in> set (snd (save None filled_profile []))"
proof -
  have p30: "predicates basic_profile
      = [True, True, False, False, True, False, False, False, False, False]"
    by (simp add: predicates_def basic_profile_def other_user_def new_User_def truthy_def
        trim_def is_space_def)
  have p80: "predicates filled_profile
      = [True, True, False, False, True, True, True, True, True, True]"
    by (simp add: predicates_def filled_profile_def other_user_def new_User_def truthy_def
        trim_def is_space_def)
  note t30 = completion_score [where u = basic_profile]
  note t80 = completion_score [where u = filled_profile and loaded = None and store = "[]"]
  from t30 [THEN conjunct2, THEN conjunct2, THEN conjunct2, THEN conjunct2, THEN conjunct1] p30
  have a: "score basic_profile = (30, False)" by (rule mp)
  from t80 [THEN conjunct2, THEN conjunct2, THEN conjunct2, THEN conjunct2, THEN conjunct2,
      THEN conjunct1] p80
  have b: "score filled_profile = (80, True)" by (rule mp)
  have m: "isModified None filled_profile" by (simp add: isModified_def)
  from t80 [THEN conjunct2, THEN conjunct2, THEN conjunct2, THEN conjunct2, THEN conjunct2,
      THEN conjunct2] m
  have s: "fst (save None filled_profile []) = fst (calculateProfileCompletion filled_profile)
        \<and> profileCompletionPercentage (fst (save None filled_profile []))
            = fst (score (fst (save None filled_profile [])))
        \<and> profileCompleted (fst (save None filled_profile []))
            = snd (score (fst (save None filled_profile [])))
        \<and> (None = (None :: user option) \<or> (\<exists>v \<in> set ([] :: user list). user_id v = user_id filled_profile)
              \<longrightarrow> fst (save None filled_profile []) \<in> set (snd (save None filled_profile [])))"
    by (rule mp)
  from t80 [THEN conjunct2, THEN conjunct1]
  have c: "fst (calculateProfileCompletion filled_profile)
      = filled_profile\<lparr>profileCompletionPercentage := fst (score filled_profile),
                        profileCompleted := snd (score filled_profile)\<rparr>"
    by simp
  from s c b have d: "profileCompletionPercentage (fst (save None filled_profile [])) = 80"
    "profileCompleted (fst (save None filled_profile []))"
    by simp_all
  from s have e: "fst (save None filled_profile []) \<in> set (snd (save None filled_profile []))"
    by blast
  from a b d e show ?thesis by (simp only: simp_thms)
qed



section \<open>Requesting a challenge\<close>





lemma verify_otp_success:
  assumes "isMobilePhone l p" and "length i = 6"
    and found: "findOne_phoneNumber store p = Some u"
    and ok: "success (snd (verifyOTP now i u))"
  shows "res_status (snd (verify_otp l now lt p i store)) = 200"
    and "res_success (snd (verify_otp l now lt p i store))"
  using assms by (simp_all add: verify_otp_def isLength_def split_beta Let_def)



lemma find_Some_set: "find P xs = Some x \<Longrightarrow> P x \<and> x \<in> set xs"
  by (induction xs) (auto split: if_splits)










section \<open>Accepting a code\<close>

lemma verifyOTP_none:
  "otp u = None \<Longrightarrow> verifyOTP now i u = (u, \<lparr>success = False, message = ''No OTP found''\<rparr>)"
  by (simp add: verifyOTP_def)

lemma pre_save_lastLogin: "lastLogin (pre_save b x) = lastLogin x"
  by (simp add: pre_save_def calculateProfileCompletion_fst)

lemma verify_otp_accept:
  assumes "isMobilePhone l p" and "length i = 6"
    and found: "findOne_phoneNumber store p = Some u"
    and ok: "success (snd (verifyOTP now i u))"
  shows "\<exists>d. findOne_phoneNumber (fst (verify_otp l now lt p i store)) p = Some d
            \<and> otp d = otp (fst (verifyOTP now i u))
            \<and> isPhoneVerified d = isPhoneVerified (fst (verifyOTP now i u))
            \<and> lastLogin d = Some lt"
proof -
  let ?u2 = "(fst (verifyOTP now i u))\<lparr>lastLogin := Some lt\<rparr>"
  let ?d = "pre_save (?u2 \<noteq> u) ?u2"
  let ?store' = "map (\<lambda>v. if user_id v = user_id ?d then ?d else v) store"
  from assms have eq: "fst (verify_otp l now lt p i store) = ?store'"
    by (simp add: verify_otp_def isLength_def save_loaded split_beta Let_def)
  from found have pu: "phoneNumber u = p"
    unfolding findOne_phoneNumber_def by (rule find_Some_set [THEN conjunct1])
  have "find (\<lambda>v. phoneNumber v = p) ?store' = Some ?d"
    using found pu by (intro find_replace [where u = u]) (simp_all add: findOne_phoneNumber_def)
  then have "findOne_phoneNumber ?store' p = Some ?d" by (simp add: findOne_phoneNumber_def)
  moreover have "lastLogin ?d = Some lt" by (simp only: pre_save_lastLogin) simp
  ultimately show ?thesis unfolding eq by auto
qed


text \<open>
  C5. A profile holds a challenge with a non-empty code, fewer than 3 attempts and an
  expiry that is not before the current time. Verifying the matching code succeeds, sets
  the phone-verified flag and removes the challenge sub-record; verifying the same code
  again, at any later time, fails with \<open>No OTP found\<close> (NoChallenge) and changes nothing.
  Through the verification route: the first request is answered with status 200 and
  the stored profile is verified and without a challenge; a second request with the
  same code is answered with status 400, \<open>No OTP found\<close>.
\<close>

theorem verifyOTP_accepts_once:
  assumes "otp u = Some c" and "code c = Some i" and "i \<noteq> []"
    and "\<not> date_lt (expiresAt c) now" and "attempts c < 3"
  shows "verifyOTP now i u = (u\<lparr>isPhoneVerified := True, otp := None\<rparr>,
                             \<lparr>success = True, message = ''OTP verified successfully''\<rparr>)
       \<and> isPhoneVerified (fst (verifyOTP now i u)) \<and> otp (fst (verifyOTP now i u)) = None
       \<and> verifyOTP later i (fst (verifyOTP now i u))
           = (fst (verifyOTP now i u), \<lparr>success = False, message = ''No OTP found''\<rparr>)
       \<and> (isMobilePhone l p \<and> length i = 6 \<and> findOne_phoneNumber store p = Some u
            \<longrightarrow> res_status (snd (verify_otp l now lt p i store)) = 200
              \<and> res_success (snd (verify_otp l now lt p i store))
              \<and> (\<exists>d. findOne_phoneNumber (fst (verify_otp l now lt p i store)) p = Some d
                     \<and> isPhoneVerified d \<and> otp d = None)
              \<and> snd (verify_otp l later lt' p i (fst (verify_otp l now lt p i store)))
                  = \<lparr>res_status = 400, res_success = False, res_message = ''No OTP found'',
                     res_data = None\<rparr>)"
proof -
  from assms have first: "verifyOTP now i u = (u\<lparr>isPhoneVerified := True, otp := None\<rparr>,
                             \<lparr>success = True, message = ''OTP verified successfully''\<rparr>)"
    by (intro verifyOTP_valid) (simp_all add: truthy_def)
  then have fn: "isPhoneVerified (fst (verifyOTP now i u)) \<and> otp (fst (verifyOTP now i u)) = None
       \<and> verifyOTP later i (fst (verifyOTP now i u))
           = (fst (verifyOTP now i u), \<lparr>success = False, message = ''No OTP found''\<rparr>)"
    by (simp add: verifyOTP_def)
  have route: "res_status (snd (verify_otp l now lt p i store)) = 200
              \<and> res_success (snd (verify_otp l now lt p i store))
              \<and> (\<exists>d. findOne_phoneNumber (fst (verify_otp l now lt p i store)) p = Some d
                     \<and> isPhoneVerified d \<and> otp d = None)
              \<and> snd (verify_otp l later lt' p i (fst (verify_otp l now lt p i store)))
                  = \<lparr>res_status = 400, res_success = False, res_message = ''No OTP found'',
                     res_data = None\<rparr>"
    if h: "isMobilePhone l p \<and> length i = 6 \<and> findOne_phoneNumber store p = Some u"
  proof -
    from h have ph: "isMobilePhone l p" and len: "length i = 6"
      and found: "findOne_phoneNumber store p = Some u" by simp_all
    from first have ok: "success (snd (verifyOTP now i u))" by simp
    note st = verify_otp_success [OF ph len found ok, of lt]
    from verify_otp_accept [OF ph len found ok, of lt] first obtain d
      where d: "findOne_phoneNumber (fst (verify_otp l now lt p i store)) p = Some d"
        "otp d = None" "isPhoneVerified d" by auto
    have "verifyOTP later i d = (d, \<lparr>success = False, message = ''No OTP found''\<rparr>)"
      using d(2) by (rule verifyOTP_none)
    then have v: "\<not> success (snd (verifyOTP later i d))"
      "message (snd (verifyOTP later i d)) = ''No OTP found''" by simp_all
    from verify_otp_failure(1) [OF ph len d(1) v(1), of lt'] v(2)
    have "snd (verify_otp l later lt' p i (fst (verify_otp l now lt p i store)))
                  = \<lparr>res_status = 400, res_success = False, res_message = ''No OTP found'',
                     res_data = None\<rparr>" by simp
    with st d show ?thesis by blast
  qed
  from first fn route show ?thesis by blast
qed

theorem verifyOTP_accepts_once_witness:
  "verifyOTP 1000 ''550000'' (fst (generateOTP 0 (1 / 2) sample_user))
     = ((fst (generateOTP 0 (1 / 2) sample_user))\<lparr>isPhoneVerified := True, otp := None\<rparr>,
        \<lparr>success = True, message = ''OTP verified successfully''\<rparr>)
   \<and> snd (verifyOTP 2000 ''550000''
            (fst (verifyOTP 1000 ''550000'' (fst (generateOTP 0 (1 / 2) sample_user)))))
     = \<lparr>success = False, message = ''No OTP found''\<rparr>
   \<and> res_status (snd (verify_otp sample_lib 1000 1000 ''+10000000001'' ''550000'' sample_store))
     = 200
   \<and> snd (verify_otp sample_lib 2000 2000 ''+10000000001'' ''550000''
            (fst (verify_otp sample_lib 1000 1000 ''+10000000001'' ''550000'' sample_store)))
     = \<lparr>res_status = 400, res_success = False, res_message = ''No OTP found'',
        res_data = None\<rparr>"
proof -
  let ?u = "fst (generateOTP 0 (1 / 2) sample_user)"
  let ?c = "\<lparr>code = Some ''550000'', expiresAt = Some 600000, attempts = 0::int\<rparr>"
  have h: "otp ?u = Some ?c" "code ?c = Some ''550000''" "''550000'' \<noteq> []"
    "\<not> date_lt (expiresAt ?c) 1000" "attempts ?c < 3"
    by (simp_all add: sample_issued date_lt_def)
  note t = verifyOTP_accepts_once [OF h, where later = 2000 and l = sample_lib
      and p = "''+10000000001''" and store = sample_store and lt = 1000 and lt' = 2000]
  have found: "isMobilePhone sample_lib ''+10000000001'' \<and> length ''550000'' = 6
      \<and> findOne_phoneNumber sample_store ''+10000000001'' = Some ?u"
    by (simp add: sample_store_def findOne_phoneNumber_def sample_issued sample_phones)
  note a = t [THEN conjunct1]
  from t [THEN conjunct2, THEN conjunct2, THEN conjunct2, THEN conjunct1]
  have b: "snd (verifyOTP 2000 ''550000'' (fst (verifyOTP 1000 ''550000'' ?u)))
     = \<lparr>success = False, message = ''No OTP found''\<rparr>" by simp
  from t [THEN conjunct2, THEN conjunct2, THEN conjunct2, THEN conjunct2] found
  have c: "res_status (snd (verify_otp sample_lib 1000 1000 ''+10000000001'' ''550000'' sample_store)) = 200"
    "snd (verify_otp sample_lib 2000 2000 ''+10000000001'' ''550000''
            (fst (verify_otp sample_lib 1000 1000 ''+10000000001'' ''550000'' sample_store)))
     = \<lparr>res_status = 400, res_success = False, res_message = ''No OTP found'',
        res_data = None\<rparr>"
    by blast+
  from a b c show ?thesis by (simp only: simp_thms)
qed


section \<open>Updating the personal details\<close>










section \<open>Updating the location preferences\<close>












lemma verifyOTP_locations [simp]:
  "preferredLocations (fst (verifyOTP now i u)) = preferredLocations u"
  by (simp add: verifyOTP_def split: option.split)










end
